theory Spec2Isabelle
  imports Main "HOL-Library.Sublist" "HOL-Library.Char_ord" "HOL-Library.List_Lexorder"
    "HOL-Library.Multiset"
begin

section \<open>Python string primitives used by the worker\<close>

text \<open>
  Strings are lists of bytes. The primitives below are the ASCII fragment of the
  Python built-ins that \<^verbatim>\<open>backend/worker.py\<close> calls: on bytes above 127 they leave
  the text unchanged and treat it as neither digit, letter nor white space.
\<close>

definition py_isspace :: "char \<Rightarrow> bool" where
  \<comment> \<open>the ASCII characters for which \<^verbatim>\<open>str.isspace\<close> holds: TAB..CR, FS..US and the blank\<close>
  "py_isspace c =
     (let n = (of_char c :: nat) in (9 \<le> n \<and> n \<le> 13) \<or> (28 \<le> n \<and> n \<le> 32))"

definition py_strip :: "string \<Rightarrow> string" where
  \<comment> \<open>\<^verbatim>\<open>s.strip()\<close>\<close>
  "py_strip s = rev (dropWhile py_isspace (rev (dropWhile py_isspace s)))"

definition lower_char :: "char \<Rightarrow> char" where
  \<comment> \<open>the lower-case letter of an ASCII capital; every other character is left as it is\<close>
  "lower_char c =
     (case map_of (zip ''ABCDEFGHIJKLMNOPQRSTUVWXYZ'' ''abcdefghijklmnopqrstuvwxyz'') c of
        None \<Rightarrow> c
      | Some l \<Rightarrow> l)"

definition py_lower :: "string \<Rightarrow> string" where
  \<comment> \<open>\<^verbatim>\<open>s.lower()\<close>\<close>
  "py_lower s = map lower_char s"

fun py_split :: "char \<Rightarrow> string \<Rightarrow> string list" where
  \<comment> \<open>\<^verbatim>\<open>s.split(sep)\<close> for a one-character separator; the result is never empty\<close>
  "py_split sep [] = [[]]"
| "py_split sep (c # cs) =
     (if c = sep then [] # py_split sep cs
      else (case py_split sep cs of
              [] \<Rightarrow> [[c]]
            | w # ws \<Rightarrow> (c # w) # ws))"

definition py_rstrip_char :: "char \<Rightarrow> string \<Rightarrow> string" where
  \<comment> \<open>\<^verbatim>\<open>s.rstrip(c)\<close> for a one-character argument\<close>
  "py_rstrip_char c s = rev (dropWhile (\<lambda>x. x = c) (rev s))"

definition py_lstrip_char :: "char \<Rightarrow> string \<Rightarrow> string" where
  \<comment> \<open>\<^verbatim>\<open>s.lstrip(c)\<close> for a one-character argument\<close>
  "py_lstrip_char c s = dropWhile (\<lambda>x. x = c) s"

definition is_digit :: "char \<Rightarrow> bool" where
  "is_digit c = (let n = (of_char c :: nat) in 48 \<le> n \<and> n \<le> 57)"

definition digit_val :: "char \<Rightarrow> int" where
  "digit_val c = int (of_char c) - 48"

definition py_isdigit :: "string \<Rightarrow> bool" where
  \<comment> \<open>\<^verbatim>\<open>s.isdigit()\<close>: non-empty and every character a digit\<close>
  "py_isdigit s = (s \<noteq> [] \<and> list_all is_digit s)"

fun py_contains :: "string \<Rightarrow> string \<Rightarrow> bool" where
  \<comment> \<open>\<^verbatim>\<open>k in t\<close> on strings: \<open>k\<close> occurs in \<open>t\<close> as a contiguous substring\<close>
  "py_contains k [] = (k = [])"
| "py_contains k (c # cs) = (prefix k (c # cs) \<or> py_contains k cs)"

fun int_digits :: "string \<Rightarrow> int \<Rightarrow> int option" where
  \<comment> \<open>the rest of a decimal literal after a digit: digits, each optionally preceded by one underscore\<close>
  "int_digits [] acc = Some acc"
| "int_digits (c # cs) acc =
     (if is_digit c then int_digits cs (10 * acc + digit_val c)
      else if c = CHR ''_'' then
        (case cs of
           [] \<Rightarrow> None
         | d # ds \<Rightarrow> if is_digit d then int_digits ds (10 * acc + digit_val d) else None)
      else None)"

fun int_unsigned :: "string \<Rightarrow> int option" where
  "int_unsigned [] = None"
| "int_unsigned (d # ds) = (if is_digit d then int_digits ds (digit_val d) else None)"

definition int_isspace :: "char \<Rightarrow> bool" where
  \<comment> \<open>the ASCII characters that \<^verbatim>\<open>int\<close> skips around a literal: TAB..CR and the blank\<close>
  "int_isspace c = (let n = (of_char c :: nat) in (9 \<le> n \<and> n \<le> 13) \<or> n = 32)"

definition py_int :: "string \<Rightarrow> int option" where
  \<comment> \<open>\<^verbatim>\<open>int(s)\<close> in base 10; \<open>None\<close> where Python raises \<^verbatim>\<open>ValueError\<close>\<close>
  "py_int s =
     (case rev (dropWhile int_isspace (rev (dropWhile int_isspace s))) of
        [] \<Rightarrow> None
      | c # cs \<Rightarrow>
          if c = CHR ''-'' then map_option uminus (int_unsigned cs)
          else if c = CHR ''+'' then int_unsigned cs
          else int_unsigned (c # cs))"


section \<open>Exceptions, log lines and observable actions\<close>

datatype exn =
    ValueError string
  | IndexError string
  | TypeError string
  | UserAlreadyParticipantError
  | SessionPasswordNeededError
  | WebSocketDisconnect
  | AttributeError string
  | OtherError string

fun str_exn :: "exn \<Rightarrow> string" where
  \<comment> \<open>\<^verbatim>\<open>str(e)\<close>\<close>
  "str_exn (ValueError m) = m"
| "str_exn (IndexError m) = m"
| "str_exn (TypeError m) = m"
| "str_exn UserAlreadyParticipantError = ''The authenticated user is already a participant of the chat''"
| "str_exn SessionPasswordNeededError = ''Two-steps verification is enabled and a password is required''"
| "str_exn WebSocketDisconnect = ''''"
| "str_exn (AttributeError m) = m"
| "str_exn (OtherError m) = m"

definition int_value_error :: "string \<Rightarrow> exn" where
  \<comment> \<open>what \<^verbatim>\<open>int(s)\<close> raises; the literal is shown between quotes, its escaping is not modelled\<close>
  "int_value_error s = ValueError (''invalid literal for int() with base 10: '' @ [CHR 39] @ s @ [CHR 39])"

text \<open>
  One constructor for each \<^verbatim>\<open>self.logger.log\<close> call of the worker, carrying the values
  that the call formats into its text.
\<close>

datatype log_entry =
    LogConnected string                   \<comment> \<open>Client for phone connected and status set to Online.\<close>
  | LogNoActiveRules string               \<comment> \<open>No active rules for phone.\<close>
  | LogListening string nat               \<comment> \<open>phone is listening to n source chats.\<close>
  | LogNewMessage int string              \<comment> \<open>New message in chat for client phone\<close>
  | LogForwardNewMessage int string       \<comment> \<open>[FORWARD] New message in chat for client phone\<close>
  | LogForwardedDeep int int              \<comment> \<open>(indented) Forwarded from chat to dest\<close>
  | LogForwarded int int                  \<comment> \<open>Forwarded from chat to dest\<close>
  | LogInvalidDestination string          \<comment> \<open>Invalid destination chat ID: text\<close>
  | LogErrorForwarding exn                \<comment> \<open>Error forwarding: e\<close>
  | LogAutoReplyEnabled string            \<comment> \<open>Auto-reply enabled for phone.\<close>
  | LogInfoAutoReplyEnabled string        \<comment> \<open>[INFO] Auto-reply enabled for phone.\<close>
  | LogAutoRepliedKeyword int             \<comment> \<open>(indented) Auto-replied to sender (keyword matched)\<close>
  | LogAutoRepliedDeep int                \<comment> \<open>(indented) Auto-replied to sender\<close>
  | LogAutoReplied int                    \<comment> \<open>Auto-replied to sender\<close>
  | LogSmartSellingEnabled string         \<comment> \<open>Smart Selling enabled for phone.\<close>
  | LogSmartReplySent int                 \<comment> \<open>Smart reply sent to sender\<close>
  | LogFailedToConnect string exn         \<comment> \<open>[ERROR] Client phone failed to connect: e\<close>
  | LogDisconnected string                \<comment> \<open>[INFO] Client for phone disconnected.\<close>
  | LogAttemptJoin string string          \<comment> \<open>Client phone attempting to join link...\<close>
  | LogJoinSuccess                        \<comment> \<open>Success.\<close>
  | LogJoinSkipped                        \<comment> \<open>Skipped (already a member).\<close>
  | LogJoinError string                   \<comment> \<open>Error: reason\<close>
  | LogExtractionStart string string      \<comment> \<open>Client phone starting extraction from link...\<close>
  | LogExtractionComplete nat             \<comment> \<open>Extraction complete. Found n unique items.\<close>
  | LogExtractionFailed string            \<comment> \<open>Extraction failed: message\<close>
  | LogJobStart int string                \<comment> \<open>Starting forwarding job for message id from chat\<close>
  | LogForwardingTo string                \<comment> \<open>Forwarding to target...\<close>
  | LogJobSuccessWaiting int              \<comment> \<open>Success. Waiting for cycle delay of n s.\<close>
  | LogJobFailed string exn               \<comment> \<open>Failed to forward to target: e\<close>
  | LogJobCompleted int                   \<comment> \<open>Forwarding job for id completed.\<close>
  | LogJobRunnerError exn                 \<comment> \<open>Error in forwarding job runner: e\<close>
  | LogLoginSuccessful string             \<comment> \<open>Login successful for phone. Session saved.\<close>
  | LogLoginFailed string string          \<comment> \<open>Login failed for identifier: message\<close>

text \<open>
  The calls a coroutine makes on the outside world, in the order it makes them. A call
  is recorded when it is issued, whether or not it then raises.
\<close>

datatype action =
    Log log_entry
  | Sleep int                             \<comment> \<open>\<^verbatim>\<open>asyncio.sleep(seconds)\<close>\<close>
  | ForwardTo int                         \<comment> \<open>\<^verbatim>\<open>event.forward_to(dest_id)\<close>\<close>
  | Reply string                          \<comment> \<open>\<^verbatim>\<open>event.reply(text)\<close>\<close>
  | SetStatus string string               \<comment> \<open>\<^verbatim>\<open>accounts_collection.update_one\<close> setting the status of a phone\<close>
  | JoinChannel string                    \<comment> \<open>\<^verbatim>\<open>client(JoinChannelRequest(link))\<close>\<close>
  | GetMessages string int                \<comment> \<open>\<^verbatim>\<open>client.get_messages(chat, ids=message_id)\<close>\<close>
  | SendMessage string                    \<comment> \<open>\<^verbatim>\<open>client.send_message(target, message)\<close>\<close>
  | ForwardMessages string int string     \<comment> \<open>\<^verbatim>\<open>client.forward_messages(target, message_id, from_peer=chat)\<close>\<close>
  | Unhandled exn                         \<comment> \<open>an exception that left a handler and was swallowed by the event loop\<close>
  | WsAccept                              \<comment> \<open>\<^verbatim>\<open>websocket.accept()\<close>\<close>
  | WsSendJson string string              \<comment> \<open>\<^verbatim>\<open>websocket.send_json({"type": t, "message": m})\<close>\<close>
  | WsReceiveJson                         \<comment> \<open>\<^verbatim>\<open>websocket.receive_json()\<close>\<close>
  | ClientConnect                         \<comment> \<open>\<^verbatim>\<open>client.connect()\<close>\<close>
  | SendCodeRequest string                \<comment> \<open>\<^verbatim>\<open>client.send_code_request(phone)\<close>\<close>
  | SignIn string string string           \<comment> \<open>\<^verbatim>\<open>client.sign_in(phone, code, phone_code_hash=hash)\<close>\<close>
  | SignInPassword string                 \<comment> \<open>\<^verbatim>\<open>client.sign_in(password=password)\<close>\<close>
  | GetMe                                 \<comment> \<open>\<^verbatim>\<open>client.get_me()\<close>\<close>
  | UpsertAccount string string string string
      \<comment> \<open>the upsert into \<^verbatim>\<open>accounts_collection\<close>: phone, session string, status, owner\<close>
  | CreateRunClientTask string string     \<comment> \<open>\<^verbatim>\<open>asyncio.create_task(self._run_client(phone, session_string))\<close>\<close>
  | ClientDisconnect                      \<comment> \<open>\<^verbatim>\<open>client.disconnect()\<close>\<close>

datatype client = Client string           \<comment> \<open>a \<^verbatim>\<open>TelegramClient\<close> built from a session string\<close>

type_synonym registry = "string \<rightharpoonup> client"  \<comment> \<open>\<^verbatim>\<open>WorkerManager.clients\<close>, keyed by phone\<close>


section \<open>Joining groups\<close>

record join_result =
  link :: string
  status :: string
  reason :: string

definition join_attempt :: "(string \<Rightarrow> exn option) \<Rightarrow> string \<Rightarrow> string \<Rightarrow> join_result \<times> action list" where
  \<comment> \<open>the \<^verbatim>\<open>try\<close> statement of the loop body; \<open>join l\<close> is what the join request raises, if anything\<close>
  "join_attempt join phone l =
     (case join l of
        None \<Rightarrow>
          (\<lparr>link = l, status = ''success'', reason = ''Successfully joined''\<rparr>,
           [Log (LogAttemptJoin phone l), JoinChannel l, Log LogJoinSuccess])
      | Some UserAlreadyParticipantError \<Rightarrow>
          (\<lparr>link = l, status = ''skipped'', reason = ''Already a member''\<rparr>,
           [Log (LogAttemptJoin phone l), JoinChannel l, Log LogJoinSkipped])
      | Some e \<Rightarrow>
          (\<lparr>link = l, status = ''error'', reason = str_exn e\<rparr>,
           [Log (LogAttemptJoin phone l), JoinChannel l, Log (LogJoinError (str_exn e))]))"

fun join_loop :: "(string \<Rightarrow> exn option) \<Rightarrow> string \<Rightarrow> string list \<Rightarrow> join_result list \<times> action list" where
  "join_loop join phone [] = ([], [])"
| "join_loop join phone (l # ls) =
     (if py_strip l = [] then join_loop join phone ls
      else
        (let (r, acts) = join_attempt join phone l;
             (rs, rest) = join_loop join phone ls
         in (r # rs, acts @ [Sleep 5] @ rest)))"

definition join_groups_for_account ::
    "registry \<Rightarrow> (string \<Rightarrow> exn option) \<Rightarrow> string \<Rightarrow> string list \<Rightarrow> join_result list \<times> action list" where
  "join_groups_for_account clients join phone group_links =
     (if phone \<notin> dom clients then
        (map (\<lambda>l. \<lparr>link = l, status = ''error'', reason = ''Account is not online''\<rparr>) group_links, [])
      else join_loop join phone group_links)"


section \<open>Broadcast forwarding job\<close>

record job_net =
  get_messages_result :: "string \<Rightarrow> exn + bool"
    \<comment> \<open>\<^verbatim>\<open>client.get_messages\<close> while serving a target: raises, or returns a message (True) or nothing (False)\<close>
  send_result :: "string \<Rightarrow> exn option"
    \<comment> \<open>what \<^verbatim>\<open>client.send_message\<close> to a target raises, if anything\<close>
  forward_result :: "string \<Rightarrow> exn option"
    \<comment> \<open>what \<^verbatim>\<open>client.forward_messages\<close> to a target raises, if anything\<close>

definition parse_message_link :: "string \<Rightarrow> exn + (string \<times> int)" where
  \<comment> \<open>\<^verbatim>\<open>parts = message_link.rstrip('/').split('/'); chat = parts[-2]; message_id = int(parts[-1])\<close>\<close>
  "parse_message_link message_link =
     (let parts = py_split (CHR ''/'') (py_rstrip_char (CHR ''/'') message_link) in
      if length parts < 2 then Inl (IndexError ''list index out of range'')
      else
        (case py_int (last parts) of
           None \<Rightarrow> Inl (int_value_error (last parts))
         | Some message_id \<Rightarrow> Inr (parts ! (length parts - 2), message_id)))"

definition deliver_try ::
    "job_net \<Rightarrow> string \<Rightarrow> int \<Rightarrow> int \<Rightarrow> bool \<Rightarrow> string \<Rightarrow> action list \<times> exn option" where
  \<comment> \<open>the body of the inner \<^verbatim>\<open>try\<close>: the actions it issues and the exception that ends it, if any\<close>
  "deliver_try net chat message_id cycle_delay hide_sender target =
     (let (acts, err) =
            (if hide_sender then
               (case get_messages_result net target of
                  Inl e \<Rightarrow> ([GetMessages chat message_id], Some e)
                | Inr found \<Rightarrow>
                    if found then ([GetMessages chat message_id, SendMessage target], send_result net target)
                    else ([GetMessages chat message_id], None))
             else ([ForwardMessages target message_id chat], forward_result net target))
      in (case err of
            None \<Rightarrow>
              (Log (LogForwardingTo target) # acts
                 @ [Log (LogJobSuccessWaiting cycle_delay), Sleep cycle_delay], None)
          | Some e \<Rightarrow> (Log (LogForwardingTo target) # acts, Some e)))"

definition forward_one ::
    "job_net \<Rightarrow> string \<Rightarrow> int \<Rightarrow> int \<Rightarrow> bool \<Rightarrow> string \<Rightarrow> action list" where
  \<comment> \<open>the loop body: the inner \<^verbatim>\<open>try\<close>, and \<^verbatim>\<open>except Exception\<close> logging the failure\<close>
  "forward_one net chat message_id cycle_delay hide_sender target =
     (case deliver_try net chat message_id cycle_delay hide_sender target of
        (acts, None) \<Rightarrow> acts
      | (acts, Some e) \<Rightarrow> acts @ [Log (LogJobFailed target e)])"

fun forward_loop ::
    "job_net \<Rightarrow> string \<Rightarrow> int \<Rightarrow> int \<Rightarrow> bool \<Rightarrow> string list \<Rightarrow> action list" where
  \<comment> \<open>\<^verbatim>\<open>for target in targets\<close>\<close>
  "forward_loop net chat message_id cycle_delay hide_sender [] = []"
| "forward_loop net chat message_id cycle_delay hide_sender (target # ts) =
     forward_one net chat message_id cycle_delay hide_sender target
       @ forward_loop net chat message_id cycle_delay hide_sender ts"

definition forwarding_job_runner ::
    "job_net \<Rightarrow> string \<Rightarrow> int \<Rightarrow> int \<Rightarrow> string list \<Rightarrow> bool \<Rightarrow> action list \<times> exn option" where
  \<comment> \<open>the trace of the background task and the exception that leaves it, if any\<close>
  "forwarding_job_runner net message_link delay cycle_delay targets hide_sender =
     (case parse_message_link message_link of
        Inl e \<Rightarrow> ([Log (LogJobRunnerError e)], None)
      | Inr (chat, message_id) \<Rightarrow>
          ([Log (LogJobStart message_id chat), Sleep delay]
             @ forward_loop net chat message_id cycle_delay hide_sender targets
             @ [Log (LogJobCompleted message_id)], None))"

definition is_delivery :: "action \<Rightarrow> bool" where
  \<comment> \<open>the actions of a job that reach the remote service\<close>
  "is_delivery a =
     (case a of
        GetMessages c i \<Rightarrow> True
      | SendMessage t \<Rightarrow> True
      | ForwardMessages t i c \<Rightarrow> True
      | _ \<Rightarrow> False)"


section \<open>Extraction from a channel\<close>








record message =
  message_text :: "string option"   \<comment> \<open>\<^verbatim>\<open>message.text\<close>\<close>






section \<open>Session supervisor: rules, handlers and the client run\<close>

record rule_doc =
  account_phone :: string
  source_chat :: string
  destination_chat :: string
  rule_status :: string

record auto_reply_settings =
  auto_reply_phone :: string
  message :: string
  keywords_text :: "string option"   \<comment> \<open>the field \<^verbatim>\<open>keywords\<close>\<close>

record smart_selling_settings =
  smart_phone :: string
  enabled :: bool
  must_contain :: "string option"
  maybe_contain :: "string option"
  smart_message :: string

record event =
  chat_id :: int
  sender_id :: int
  raw_text :: string
  is_private :: bool
  out :: bool

record event_net =
  forward_to_result :: "int \<Rightarrow> exn option"   \<comment> \<open>what \<^verbatim>\<open>event.forward_to(dest_id)\<close> raises, if anything\<close>
  reply_result :: "string \<Rightarrow> exn option"      \<comment> \<open>what \<^verbatim>\<open>event.reply(text)\<close> raises, if anything\<close>

definition load_rules :: "rule_doc list \<Rightarrow> string \<Rightarrow> rule_doc list" where
  \<comment> \<open>the query on \<^verbatim>\<open>forwarding_rules_collection\<close>: the account's rules whose status is Active or active\<close>
  "load_rules collection phone =
     filter (\<lambda>r. account_phone r = phone \<and> (rule_status r = ''Active'' \<or> rule_status r = ''active''))
       collection"

fun source_chat_ids :: "rule_doc list \<Rightarrow> exn + int set" where
  \<comment> \<open>\<^verbatim>\<open>set(int(rule['source_chat']) for rule in rules if str(rule['source_chat']).lstrip('-').isdigit())\<close>\<close>
  "source_chat_ids [] = Inr {}"
| "source_chat_ids (r # rs) =
     (if py_isdigit (py_lstrip_char (CHR ''-'') (source_chat r)) then
        (case py_int (source_chat r) of
           None \<Rightarrow> Inl (int_value_error (source_chat r))
         | Some n \<Rightarrow>
             (case source_chat_ids rs of
                Inl e \<Rightarrow> Inl e
              | Inr ids \<Rightarrow> Inr (insert n ids)))
      else source_chat_ids rs)"

definition forward_rule :: "event_net \<Rightarrow> event \<Rightarrow> rule_doc \<Rightarrow> action list" where
  \<comment> \<open>the \<^verbatim>\<open>try\<close> statement for one matching rule, with its two \<^verbatim>\<open>except\<close> clauses\<close>
  "forward_rule net ev r =
     (case py_int (destination_chat r) of
        None \<Rightarrow> [Log (LogInvalidDestination (destination_chat r))]
      | Some dest_id \<Rightarrow>
          (case forward_to_result net dest_id of
             None \<Rightarrow>
               [ForwardTo dest_id, Log (LogForwardedDeep (chat_id ev) dest_id),
                Log (LogForwarded (chat_id ev) dest_id)]
           | Some (ValueError m) \<Rightarrow>
               [ForwardTo dest_id, Log (LogInvalidDestination (destination_chat r))]
           | Some e \<Rightarrow> [ForwardTo dest_id, Log (LogErrorForwarding e)]))"

fun handler_rules :: "event_net \<Rightarrow> event \<Rightarrow> rule_doc list \<Rightarrow> action list \<times> exn option" where
  \<comment> \<open>\<^verbatim>\<open>for rule in rules: if int(rule['source_chat']) == event.chat_id: ...\<close>;
      the comparison is outside the \<^verbatim>\<open>try\<close>, so a failing \<^verbatim>\<open>int\<close> leaves the handler\<close>
  "handler_rules net ev [] = ([], None)"
| "handler_rules net ev (r # rs) =
     (case py_int (source_chat r) of
        None \<Rightarrow> ([], Some (int_value_error (source_chat r)))
      | Some src \<Rightarrow>
          if src = chat_id ev then
            (let (rest, err) = handler_rules net ev rs
             in (forward_rule net ev r @ rest, err))
          else handler_rules net ev rs)"

definition handler :: "string \<Rightarrow> rule_doc list \<Rightarrow> event_net \<Rightarrow> event \<Rightarrow> action list \<times> exn option" where
  "handler phone rules net ev =
     (let (acts, err) = handler_rules net ev rules
      in ([Log (LogNewMessage (chat_id ev) phone), Log (LogForwardNewMessage (chat_id ev) phone)] @ acts,
          err))"

definition parse_keywords :: "string option \<Rightarrow> string list" where
  \<comment> \<open>\<^verbatim>\<open>[k.strip().lower() for k in (value or "").split(',') if k.strip()]\<close>\<close>
  "parse_keywords value =
     map (\<lambda>k. py_lower (py_strip k))
       (filter (\<lambda>k. py_strip k \<noteq> [])
          (py_split (CHR '','') (case value of None \<Rightarrow> [] | Some v \<Rightarrow> v)))"

definition reply_with :: "event_net \<Rightarrow> string \<Rightarrow> action list \<Rightarrow> action list \<times> exn option" where
  \<comment> \<open>\<^verbatim>\<open>await event.reply(text)\<close> followed by log calls, which a raising reply skips\<close>
  "reply_with net txt logs =
     (case reply_result net txt of
        None \<Rightarrow> (Reply txt # logs, None)
      | Some e \<Rightarrow> ([Reply txt], Some e))"

definition auto_reply_handler ::
    "auto_reply_settings \<Rightarrow> string list \<Rightarrow> event_net \<Rightarrow> event \<Rightarrow> action list \<times> exn option" where
  "auto_reply_handler settings kws net ev =
     (if is_private ev \<and> \<not> out ev then
        (let message_text = py_lower (raw_text ev) in
         if kws \<noteq> [] then
           (if list_ex (\<lambda>k. py_contains k message_text) kws then
              reply_with net (message settings)
                [Log (LogAutoRepliedKeyword (sender_id ev)), Log (LogAutoReplied (sender_id ev))]
            else ([], None))
         else
           reply_with net (message settings)
             [Log (LogAutoRepliedDeep (sender_id ev)), Log (LogAutoReplied (sender_id ev))])
      else ([], None))"

definition smart_selling_handler ::
    "smart_selling_settings \<Rightarrow> string list \<Rightarrow> string list \<Rightarrow> event_net \<Rightarrow> event
       \<Rightarrow> action list \<times> exn option" where
  "smart_selling_handler smart_settings must maybe net ev =
     (if is_private ev \<and> \<not> out ev then
        (let message_text = py_lower (raw_text ev);
             must_pass = (if must \<noteq> [] then list_all (\<lambda>k. py_contains k message_text) must else True);
             maybe_pass = (if maybe \<noteq> [] then list_ex (\<lambda>k. py_contains k message_text) maybe else False);
             should_reply =
               (if must \<noteq> [] \<and> maybe \<noteq> [] then (if must_pass \<and> maybe_pass then True else False)
                else if must \<noteq> [] then (if must_pass then True else False)
                else if maybe \<noteq> [] then (if maybe_pass then True else False)
                else False)
         in if should_reply then
              reply_with net (smart_message smart_settings) [Log (LogSmartReplySent (sender_id ev))]
            else ([], None))
      else ([], None))"

text \<open>
  A registered handler is an event filter (the arguments of \<^verbatim>\<open>events.NewMessage\<close>) with
  its callback. The event loop calls every registered handler whose filter accepts the
  event, in registration order, and swallows what a callback raises.
\<close>

datatype registered = Registered "event \<Rightarrow> bool" "event_net \<Rightarrow> event \<Rightarrow> action list \<times> exn option"

fun dispatch :: "event_net \<Rightarrow> event \<Rightarrow> registered \<Rightarrow> action list" where
  "dispatch net ev (Registered accepts callback) =
     (if accepts ev then
        (case callback net ev of
           (acts, None) \<Rightarrow> acts
         | (acts, Some e) \<Rightarrow> acts @ [Unhandled e])
      else [])"

definition forwarding_setup :: "string \<Rightarrow> rule_doc list \<Rightarrow> exn + (action list \<times> registered list)" where
  \<comment> \<open>\<^verbatim>\<open>if not rules: ... else: ...\<close>: the handler is registered with \<^verbatim>\<open>chats=source_chat_ids\<close>,
      taken here as: it is called for the events whose chat is one of these identifiers\<close>
  "forwarding_setup phone rules =
     (if rules = [] then Inr ([Log (LogNoActiveRules phone)], [])
      else
        (case source_chat_ids rules of
           Inl e \<Rightarrow> Inl e
         | Inr ids \<Rightarrow>
             Inr ([Log (LogListening phone (card ids))],
                  [Registered (\<lambda>ev. chat_id ev \<in> ids) (handler phone rules)])))"

definition auto_reply_setup :: "string \<Rightarrow> auto_reply_settings option \<Rightarrow> action list \<times> registered list" where
  "auto_reply_setup phone found =
     (case found of
        None \<Rightarrow> ([], [])
      | Some settings \<Rightarrow>
          if message settings \<noteq> [] then
            ([Log (LogAutoReplyEnabled phone), Log (LogInfoAutoReplyEnabled phone)],
             [Registered (\<lambda>ev. \<not> out ev) (auto_reply_handler settings (parse_keywords (keywords_text settings)))])
          else ([], []))"

definition smart_selling_setup ::
    "string \<Rightarrow> smart_selling_settings option \<Rightarrow> action list \<times> registered list" where
  "smart_selling_setup phone found =
     (case found of
        None \<Rightarrow> ([], [])
      | Some smart_settings \<Rightarrow>
          if enabled smart_settings \<and> smart_message smart_settings \<noteq> [] then
            ([Log (LogSmartSellingEnabled phone)],
             [Registered (\<lambda>ev. \<not> out ev)
                (smart_selling_handler smart_settings
                   (parse_keywords (must_contain smart_settings))
                   (parse_keywords (maybe_contain smart_settings)))])
          else ([], []))"

record database =
  forwarding_rules_collection :: "rule_doc list"
  auto_reply_settings_collection :: "auto_reply_settings list"
  smart_selling_settings_collection :: "smart_selling_settings list"

record session_env =
  start_result :: "exn option"            \<comment> \<open>what \<^verbatim>\<open>client.start\<close> raises, if anything\<close>
  session_net :: event_net
  inbound :: "event list"                 \<comment> \<open>the events that arrive until the client disconnects\<close>
  disconnect_result :: "exn option"       \<comment> \<open>what \<^verbatim>\<open>client.run_until_disconnected\<close> raises, if anything\<close>

type_synonym accounts = "string \<rightharpoonup> string"   \<comment> \<open>the status field of \<^verbatim>\<open>accounts_collection\<close>, by phone\<close>

definition set_status :: "accounts \<Rightarrow> string \<Rightarrow> string \<Rightarrow> accounts" where
  \<comment> \<open>\<^verbatim>\<open>update_one({"phone": phone}, {"$set": {"status": s}})\<close>: no document is created\<close>
  "set_status accs phone s = (if phone \<in> dom accs then accs(phone \<mapsto> s) else accs)"

definition run_client_try ::
    "session_env \<Rightarrow> database \<Rightarrow> registry \<Rightarrow> accounts \<Rightarrow> string \<Rightarrow> client
       \<Rightarrow> registry \<times> accounts \<times> action list \<times> exn option" where
  \<comment> \<open>the \<^verbatim>\<open>try\<close> block of \<^verbatim>\<open>_run_client\<close>: the state it leaves, its trace and the exception that ends it\<close>
  "run_client_try env db clients accs phone c =
     (case start_result env of
        Some e \<Rightarrow> (clients, accs, [], Some e)
      | None \<Rightarrow>
          (let clients1 = clients(phone \<mapsto> c);
               accs1 = set_status accs phone ''Online'';
               acts1 = [SetStatus phone ''Online'', Log (LogConnected phone)];
               rules = load_rules (forwarding_rules_collection db) phone
           in (case forwarding_setup phone rules of
                 Inl e \<Rightarrow> (clients1, accs1, acts1, Some e)
               | Inr (acts2, hs2) \<Rightarrow>
                   (let (acts3, hs3) =
                          auto_reply_setup phone
                            (find (\<lambda>d. auto_reply_phone d = phone) (auto_reply_settings_collection db));
                        (acts4, hs4) =
                          smart_selling_setup phone
                            (find (\<lambda>d. smart_phone d = phone) (smart_selling_settings_collection db));
                        handlers = hs2 @ hs3 @ hs4;
                        served = concat (map (\<lambda>ev. concat (map (dispatch (session_net env) ev) handlers)) (inbound env))
                    in (clients1, accs1, acts1 @ acts2 @ acts3 @ acts4 @ served, disconnect_result env)))))"

definition run_client ::
    "session_env \<Rightarrow> database \<Rightarrow> registry \<Rightarrow> accounts \<Rightarrow> string \<Rightarrow> string
       \<Rightarrow> registry \<times> accounts \<times> action list" where
  \<comment> \<open>\<^verbatim>\<open>_run_client\<close>: the \<^verbatim>\<open>try\<close> block, then \<^verbatim>\<open>except Exception\<close> if it raised, then \<^verbatim>\<open>finally\<close>\<close>
  "run_client env db clients accs phone session_string =
     (let (clients1, accs1, acts1, err) =
            run_client_try env db clients accs phone (Client session_string);
          (accs2, acts2) =
            (case err of
               None \<Rightarrow> (accs1, [])
             | Some e \<Rightarrow>
                 (set_status accs1 phone ''Error'',
                  [SetStatus phone ''Error'', Log (LogFailedToConnect phone e)]));
          clients3 = (if phone \<in> dom clients1 then clients1(phone := None) else clients1)
      in (clients3, set_status accs2 phone ''Offline'',
          acts1 @ acts2 @ [SetStatus phone ''Offline'', Log (LogDisconnected phone)]))"

definition status_writes :: "string \<Rightarrow> action list \<Rightarrow> string list" where
  \<comment> \<open>the statuses written for a phone, in the order of the writes\<close>
  "status_writes phone acts =
     concat (map (\<lambda>a. case a of SetStatus p s \<Rightarrow> (if p = phone then [s] else []) | _ \<Rightarrow> []) acts)"

definition forwards :: "action list \<Rightarrow> int list" where
  \<comment> \<open>the destinations of the forward calls in a trace\<close>
  "forwards acts = concat (map (\<lambda>a. case a of ForwardTo d \<Rightarrow> [d] | _ \<Rightarrow> []) acts)"

definition replies :: "action list \<Rightarrow> string list" where
  \<comment> \<open>the texts of the reply calls in a trace\<close>
  "replies acts = concat (map (\<lambda>a. case a of Reply t \<Rightarrow> [t] | _ \<Rightarrow> []) acts)"

definition auto_replies :: "string \<Rightarrow> auto_reply_settings \<Rightarrow> event_net \<Rightarrow> event \<Rightarrow> string list" where
  \<comment> \<open>the replies issued for one event by the handlers that the auto-reply set-up registers\<close>
  "auto_replies phone settings nt ev =
     replies (concat (map (dispatch nt ev) (snd (auto_reply_setup phone (Some settings)))))"

definition smart_replies :: "string \<Rightarrow> smart_selling_settings \<Rightarrow> event_net \<Rightarrow> event \<Rightarrow> string list" where
  \<comment> \<open>the replies issued for one event by the handlers that the smart-selling set-up registers\<close>
  "smart_replies phone smart_settings nt ev =
     replies (concat (map (dispatch nt ev) (snd (smart_selling_setup phone (Some smart_settings)))))"


section \<open>Onboarding over the websocket\<close>

datatype py_value = WebSocketV | UserV string   \<comment> \<open>a websocket, or a user with its \<^verbatim>\<open>username\<close>\<close>

definition bind_positional :: "string \<Rightarrow> string list \<Rightarrow> 'a list \<Rightarrow> exn + 'a list" where
  \<comment> \<open>binding positional arguments to the required parameters of a function (after \<^verbatim>\<open>self\<close>):
      Python raises \<^verbatim>\<open>TypeError\<close> before the body runs when their numbers differ;
      the text of the error is abbreviated\<close>
  "bind_positional fname params args =
     (if length args < length params then
        Inl (TypeError (fname @ ''() missing required positional argument: '' @ params ! length args))
      else if length params < length args then
        Inl (TypeError (fname @ ''() takes fewer positional arguments than were given''))
      else Inr args)"

definition and_then ::
    "action list \<times> (exn + 'a) \<Rightarrow> ('a \<Rightarrow> action list \<times> (exn + 'b)) \<Rightarrow> action list \<times> (exn + 'b)" where
  \<comment> \<open>one statement after another: the second runs only if the first did not raise\<close>
  "and_then m f =
     (case m of
        (acts, Inl e) \<Rightarrow> (acts, Inl e)
      | (acts, Inr x) \<Rightarrow> (case f x of (acts', r) \<Rightarrow> (acts @ acts', r)))"

definition raised :: "exn option \<Rightarrow> exn + unit" where
  "raised r = (case r of None \<Rightarrow> Inr () | Some e \<Rightarrow> Inl e)"

record onboarding_env =
  connect_result :: "exn option"             \<comment> \<open>what \<^verbatim>\<open>client.connect\<close> raises, if anything\<close>
  phone_response :: "exn + string"           \<comment> \<open>the first \<^verbatim>\<open>receive_json().get("data")\<close>\<close>
  send_code_result :: "exn + string"         \<comment> \<open>the \<^verbatim>\<open>phone_code_hash\<close> of the sent code\<close>
  code_response :: "exn + string"            \<comment> \<open>the second \<^verbatim>\<open>receive_json().get("data")\<close>\<close>
  sign_in_result :: "exn option"             \<comment> \<open>what signing in with the code raises, if anything\<close>
  password_response :: "exn + string"        \<comment> \<open>the third \<^verbatim>\<open>receive_json().get("data")\<close>\<close>
  password_sign_in_result :: "exn option"    \<comment> \<open>what signing in with the password raises, if anything\<close>
  get_me_result :: "exn + string"            \<comment> \<open>\<^verbatim>\<open>me.phone\<close>\<close>
  session_save :: string                     \<comment> \<open>\<^verbatim>\<open>client.session.save()\<close>\<close>

definition username_of :: "py_value \<Rightarrow> exn + string" where
  \<comment> \<open>\<^verbatim>\<open>owner_user.username\<close>\<close>
  "username_of v =
     (case v of
        UserV name \<Rightarrow> Inr name
      | WebSocketV \<Rightarrow> Inl (AttributeError ''object has no attribute username''))"

definition sign_in_steps :: "onboarding_env \<Rightarrow> string \<Rightarrow> string \<Rightarrow> string \<Rightarrow> action list \<times> (exn + unit)" where
  \<comment> \<open>the inner \<^verbatim>\<open>try\<close>: sign in with the code, and with the password when the service asks for it\<close>
  "sign_in_steps env phone_input code phone_code_hash =
     (case sign_in_result env of
        None \<Rightarrow> ([SignIn phone_input code phone_code_hash], Inr ())
      | Some SessionPasswordNeededError \<Rightarrow>
          and_then
            ([SignIn phone_input code phone_code_hash,
              WsSendJson ''prompt'' ''Two-factor authentication is enabled. Please enter your password:'',
              WsReceiveJson], password_response env)
            (\<lambda>password. ([SignInPassword password], raised (password_sign_in_result env)))
      | Some e \<Rightarrow> ([SignIn phone_input code phone_code_hash], Inl e))"

definition authenticate :: "onboarding_env \<Rightarrow> action list \<times> (exn + string)" where
  \<comment> \<open>the \<^verbatim>\<open>try\<close> block up to \<^verbatim>\<open>me = await client.get_me()\<close>; yields \<^verbatim>\<open>me.phone\<close>\<close>
  "authenticate env =
     and_then ([ClientConnect], raised (connect_result env)) (\<lambda>u.
     and_then
       ([WsSendJson ''prompt'' ''Please enter your phone number (e.g., +15551234567):'', WsReceiveJson],
        phone_response env) (\<lambda>phone_input.
     and_then ([SendCodeRequest phone_input], send_code_result env) (\<lambda>phone_code_hash.
     and_then
       ([WsSendJson ''prompt'' ''Enter the code you received in Telegram:'', WsReceiveJson],
        code_response env) (\<lambda>code.
     and_then (sign_in_steps env phone_input code phone_code_hash) (\<lambda>u.
     ([GetMe], get_me_result env))))))"

definition start_interactive_session :: "onboarding_env \<Rightarrow> py_value \<Rightarrow> py_value \<Rightarrow> action list \<times> exn option" where
  \<comment> \<open>the body, run with both parameters bound: its trace and the exception that leaves it, if any\<close>
  "start_interactive_session env websocket owner_user =
     (let (acts, err, correct_phone_number) =
            (case authenticate env of
               (acts, Inl e) \<Rightarrow> (acts, Some e, [])
             | (acts, Inr me_phone) \<Rightarrow>
                 (let correct = ''+'' @ me_phone in
                  case username_of owner_user of
                    Inl e \<Rightarrow> (acts, Some e, correct)
                  | Inr owner \<Rightarrow>
                      (acts @
                         [UpsertAccount correct (session_save env) ''Online'' owner,
                          Log (LogLoginSuccessful correct),
                          CreateRunClientTask correct (session_save env),
                          WsSendJson ''success''
                            (''Successfully logged in and saved account '' @ correct @ ''!'')],
                       None, correct)));
          handled =
            (case err of
               None \<Rightarrow> []
             | Some e \<Rightarrow>
                 [Log (LogLoginFailed (if correct_phone_number = [] then ''the user'' else correct_phone_number)
                         (str_exn e)),
                  WsSendJson ''error'' (''An error occurred: '' @ str_exn e)]);
          finally = (if connect_result env = None then [ClientDisconnect] else [])
      in (acts @ handled @ finally, None))"

definition start_interactive_session_params :: "string list" where
  \<comment> \<open>\<^verbatim>\<open>async def start_interactive_session(self, websocket: WebSocket, owner_user: User)\<close>\<close>
  "start_interactive_session_params = [''websocket'', ''owner_user'']"

definition call_start_interactive_session :: "onboarding_env \<Rightarrow> py_value list \<Rightarrow> action list \<times> exn option" where
  \<comment> \<open>a call of the method with the given positional arguments\<close>
  "call_start_interactive_session env args =
     (case bind_positional ''start_interactive_session'' start_interactive_session_params args of
        Inl e \<Rightarrow> ([], Some e)
      | Inr bound \<Rightarrow> start_interactive_session env (bound ! 0) (bound ! 1))"

definition websocket_add_account :: "onboarding_env \<Rightarrow> action list \<times> exn option" where
  \<comment> \<open>the endpoint \<^verbatim>\<open>/ws/add_account\<close>: it passes the websocket alone, and catches only \<^verbatim>\<open>WebSocketDisconnect\<close>\<close>
  "websocket_add_account env =
     (let (acts, err) = call_start_interactive_session env [WebSocketV]
      in (WsAccept # acts,
          (case err of
             Some WebSocketDisconnect \<Rightarrow> None
           | _ \<Rightarrow> err)))"

definition is_onboarding_effect :: "action \<Rightarrow> bool" where
  \<comment> \<open>a prompt or other message sent to the client, a connection to the service, a stored account or a spawned session\<close>
  "is_onboarding_effect a =
     (case a of
        WsSendJson t m \<Rightarrow> True
      | ClientConnect \<Rightarrow> True
      | UpsertAccount p s st ow \<Rightarrow> True
      | CreateRunClientTask p s \<Rightarrow> True
      | _ \<Rightarrow> False)"


section \<open>Sample inputs\<close>

definition join_ok :: "string \<Rightarrow> exn option" where
  "join_ok l = None"

definition online_1 :: registry where
  "online_1 = [''+15550001'' \<mapsto> Client ''token'']"

definition net_ok :: job_net where
  "net_ok = \<lparr>get_messages_result = (\<lambda>t. Inr True), send_result = (\<lambda>t. None),
             forward_result = (\<lambda>t. None)\<rparr>"

definition net_fail_a :: job_net where
  \<comment> \<open>forwarding to the target a is refused, every other call succeeds\<close>
  "net_fail_a = \<lparr>get_messages_result = (\<lambda>t. Inr True), send_result = (\<lambda>t. None),
                 forward_result = (\<lambda>t. if t = ''a'' then Some (OtherError ''CHAT_WRITE_FORBIDDEN'') else None)\<rparr>"




definition env_happy :: onboarding_env where
  "env_happy = \<lparr>connect_result = None, phone_response = Inr ''+15550001'',
                send_code_result = Inr ''hash'', code_response = Inr ''12345'',
                sign_in_result = None, password_response = Inr ''secret'',
                password_sign_in_result = None, get_me_result = Inr ''15550001'',
                session_save = ''token''\<rparr>"


definition rule_bad_source :: rule_doc where
  \<comment> \<open>a rule whose source chat was entered as a user name\<close>
  "rule_bad_source = \<lparr>account_phone = ''+15550001'', source_chat = ''@news'',
                      destination_chat = ''-1002'', rule_status = ''active''\<rparr>"

definition rule_good :: rule_doc where
  "rule_good = \<lparr>account_phone = ''+15550001'', source_chat = ''-1001'',
                destination_chat = ''-1003'', rule_status = ''active''\<rparr>"

definition event_1001 :: event where
  "event_1001 = \<lparr>chat_id = - 1001, sender_id = 7, raw_text = ''Hello, what is the PRICE?'',
                 is_private = True, out = False\<rparr>"

definition event_net_ok :: event_net where
  "event_net_ok = \<lparr>forward_to_result = (\<lambda>d. None), reply_result = (\<lambda>t. None)\<rparr>"

definition database_empty :: database where
  "database_empty = \<lparr>forwarding_rules_collection = [], auto_reply_settings_collection = [],
                     smart_selling_settings_collection = []\<rparr>"

definition env_start_fails :: session_env where
  \<comment> \<open>the connection cannot be established\<close>
  "env_start_fails = \<lparr>start_result = Some (OtherError ''Connection to Telegram failed 5 time(s)''),
                      session_net = event_net_ok, inbound = [], disconnect_result = None\<rparr>"

definition accounts_1 :: accounts where
  "accounts_1 = [''+15550001'' \<mapsto> ''Online'']"


definition smart_cfg :: "string option \<Rightarrow> string option \<Rightarrow> smart_selling_settings" where
  "smart_cfg must maybe = \<lparr>smart_phone = ''+15550001'', enabled = True, must_contain = must,
                            maybe_contain = maybe, smart_message = ''We have an offer''\<rparr>"

definition auto_cfg :: "string option \<Rightarrow> auto_reply_settings" where
  "auto_cfg kws = \<lparr>auto_reply_phone = ''+15550001'', message = ''I am away'', keywords_text = kws\<rparr>"



section \<open>Evaluation of the string primitives\<close>

lemmas char_eval =
  py_strip_def py_isspace_def py_rstrip_char_def py_lstrip_char_def py_int_def int_isspace_def
  py_isdigit_def
  is_digit_def digit_val_def

lemma parse_chan_12: "parse_message_link ''https://t.me/chan/12'' = Inr (''chan'', 12)"
  by (simp add: parse_message_link_def char_eval)


section \<open>Properties of joining groups\<close>

text \<open>
  C7. When the account's session is not in the registry, the call returns one result for
  each requested link, in order, each with status error and reason "Account is not online";
  it issues no join request and no pacing delay (its trace of actions is empty). For the
  links a and b the result is exactly the two error entries.
\<close>

theorem join_groups_offline:
  "phone \<notin> dom clients \<Longrightarrow>
     join_groups_for_account clients join phone group_links =
       (map (\<lambda>l. \<lparr>link = l, status = ''error'', reason = ''Account is not online''\<rparr>) group_links, [])
     \<and> length (fst (join_groups_for_account clients join phone group_links)) = length group_links
     \<and> (\<forall>r \<in> set (fst (join_groups_for_account clients join phone group_links)).
           status r = ''error'' \<and> reason r = ''Account is not online'')
     \<and> snd (join_groups_for_account clients join phone group_links) = []
     \<and> join_groups_for_account clients join phone [''a'', ''b''] =
         ([\<lparr>link = ''a'', status = ''error'', reason = ''Account is not online''\<rparr>,
           \<lparr>link = ''b'', status = ''error'', reason = ''Account is not online''\<rparr>], [])"
  by (auto simp: join_groups_for_account_def)

theorem join_groups_offline_witness:
  "''+15550001'' \<notin> dom (Map.empty :: registry)
   \<and> join_groups_for_account Map.empty join_ok ''+15550001'' [''a'', ''b''] =
       ([\<lparr>link = ''a'', status = ''error'', reason = ''Account is not online''\<rparr>,
         \<lparr>link = ''b'', status = ''error'', reason = ''Account is not online''\<rparr>], [])"
  using join_groups_offline [of "''+15550001''" Map.empty join_ok "[''a'', ''b'']"]
  by simp

lemma join_attempt_no_sleep: "Sleep n \<notin> set (snd (join_attempt join phone l))"
  by (auto simp: join_attempt_def split: option.splits exn.splits)

lemma join_loop_concat:
  "join_loop join phone ls =
     (map (\<lambda>l. fst (join_attempt join phone l)) (filter (\<lambda>l. py_strip l \<noteq> []) ls),
      concat (map (\<lambda>l. snd (join_attempt join phone l) @ [Sleep 5]) (filter (\<lambda>l. py_strip l \<noteq> []) ls)))"
  by (induction ls) (auto split: prod.splits)

lemma count_sleep_concat:
  "count_list (concat (map (\<lambda>l. snd (join_attempt join phone l) @ [Sleep 5]) ls)) (Sleep 5) = length ls"
  using join_attempt_no_sleep by (induction ls) (auto simp: count_list_0_iff)

lemma last_concat_snoc:
  "ls \<noteq> [] \<Longrightarrow> last (concat (map (\<lambda>l. f l @ [s]) ls)) = s"
  by (induction ls) auto

text \<open>
  C6, as amended. For an account that is in the registry, the blank links are skipped and
  every other link is attempted once, in order; the trace is the concatenation, over the
  attempted links, of the attempt followed by one pacing delay of five seconds. So the
  number of delays equals the number of attempts, a delay separates every two consecutive
  attempts, and the trace also ends with a delay whenever a link was attempted: the delay
  after the final attempt is not omitted.
\<close>

theorem join_groups_delay_after_every_attempt:
  "phone \<in> dom clients \<Longrightarrow>
     fst (join_groups_for_account clients join phone group_links) =
       map (\<lambda>l. fst (join_attempt join phone l)) (filter (\<lambda>l. py_strip l \<noteq> []) group_links)
     \<and> snd (join_groups_for_account clients join phone group_links) =
       concat (map (\<lambda>l. snd (join_attempt join phone l) @ [Sleep 5])
                 (filter (\<lambda>l. py_strip l \<noteq> []) group_links))
     \<and> count_list (snd (join_groups_for_account clients join phone group_links)) (Sleep 5) =
       length (fst (join_groups_for_account clients join phone group_links))
     \<and> (filter (\<lambda>l. py_strip l \<noteq> []) group_links \<noteq> [] \<longrightarrow>
          last (snd (join_groups_for_account clients join phone group_links)) = Sleep 5)"
  by (simp add: join_groups_for_account_def join_loop_concat count_sleep_concat last_concat_snoc)

theorem join_groups_delay_after_every_attempt_witness:
  "''+15550001'' \<in> dom online_1
   \<and> filter (\<lambda>l. py_strip l \<noteq> []) [''a'', '' '', ''b''] \<noteq> []
   \<and> snd (join_groups_for_account online_1 join_ok ''+15550001'' [''a'', '' '', ''b'']) =
       [Log (LogAttemptJoin ''+15550001'' ''a''), JoinChannel ''a'', Log LogJoinSuccess, Sleep 5,
        Log (LogAttemptJoin ''+15550001'' ''b''), JoinChannel ''b'', Log LogJoinSuccess, Sleep 5]
   \<and> count_list (snd (join_groups_for_account online_1 join_ok ''+15550001'' [''a'', '' '', ''b''])) (Sleep 5) = 2
   \<and> last (snd (join_groups_for_account online_1 join_ok ''+15550001'' [''a'', '' '', ''b''])) = Sleep 5"
  using join_groups_delay_after_every_attempt [of "''+15550001''" online_1 join_ok "[''a'', '' '', ''b'']"]
  by (simp add: online_1_def join_ok_def join_attempt_def py_strip_def py_isspace_def)

text \<open>
  The claim C6 as stated fails: joining the single link a on a connected account ends
  with a pacing delay although no further attempt follows.
\<close>

theorem join_trailing_delay_counterexample:
  "snd (join_groups_for_account online_1 join_ok ''+15550001'' [''a'']) =
     [Log (LogAttemptJoin ''+15550001'' ''a''), JoinChannel ''a'', Log LogJoinSuccess, Sleep 5]
   \<and> last (snd (join_groups_for_account online_1 join_ok ''+15550001'' [''a''])) = Sleep 5"
  by (simp add: join_groups_for_account_def online_1_def join_ok_def join_attempt_def py_strip_def
        py_isspace_def)


section \<open>Properties of the broadcast forwarding job\<close>

lemma forward_loop_concat:
  "forward_loop nt chat message_id cycle_delay hide_sender targets =
     concat (map (forward_one nt chat message_id cycle_delay hide_sender) targets)"
  by (induction targets) auto

lemma deliver_try_cases:
  "(\<exists>acts. deliver_try nt chat message_id cycle_delay hide_sender t =
        (Log (LogForwardingTo t) # acts @ [Log (LogJobSuccessWaiting cycle_delay), Sleep cycle_delay], None)
        \<and> (\<forall>n. Sleep n \<notin> set acts))
   \<or> (\<exists>acts e. deliver_try nt chat message_id cycle_delay hide_sender t =
        (Log (LogForwardingTo t) # acts, Some e) \<and> (\<forall>n. Sleep n \<notin> set acts))"
  by (auto simp: deliver_try_def split: sum.splits option.splits if_splits)

lemma forward_one_success:
  assumes "snd (deliver_try nt chat message_id cycle_delay hide_sender t) = None"
  shows "last (forward_one nt chat message_id cycle_delay hide_sender t) = Sleep cycle_delay"
    and "count_list (forward_one nt chat message_id cycle_delay hide_sender t) (Sleep cycle_delay) = 1"
  using assms deliver_try_cases [of nt chat message_id cycle_delay hide_sender t]
  by (auto simp: forward_one_def count_list_0_iff)

lemma forward_one_failure:
  assumes "snd (deliver_try nt chat message_id cycle_delay hide_sender t) = Some e"
  shows "last (forward_one nt chat message_id cycle_delay hide_sender t) = Log (LogJobFailed t e)"
    and "Sleep n \<notin> set (forward_one nt chat message_id cycle_delay hide_sender t)"
  using assms deliver_try_cases [of nt chat message_id cycle_delay hide_sender t]
  by (auto simp: forward_one_def)

text \<open>
  C5, as amended. Once the message reference is parsed, the job runs through every target
  in the given order: its trace is the start line, the initial delay, the segments of the
  targets one after another, and the completion line. A failing target is logged and does
  not stop the targets after it. The segment of a target whose delivery raised nothing
  ends with one sleep of the cycle delay; the segment of a target whose delivery raised
  ends with the line that logs the failure and holds no sleep of the cycle delay.
\<close>

theorem job_delay_only_after_success:
  assumes "parse_message_link message_link = Inr (chat, message_id)"
  shows "fst (forwarding_job_runner nt message_link delay cycle_delay targets hide_sender) =
           [Log (LogJobStart message_id chat), Sleep delay]
             @ concat (map (forward_one nt chat message_id cycle_delay hide_sender) targets)
             @ [Log (LogJobCompleted message_id)]
         \<and> (\<forall>t. if snd (deliver_try nt chat message_id cycle_delay hide_sender t) = None
                then last (forward_one nt chat message_id cycle_delay hide_sender t) = Sleep cycle_delay
                   \<and> count_list (forward_one nt chat message_id cycle_delay hide_sender t) (Sleep cycle_delay) = 1
                else last (forward_one nt chat message_id cycle_delay hide_sender t) =
                       Log (LogJobFailed t (the (snd (deliver_try nt chat message_id cycle_delay hide_sender t))))
                   \<and> Sleep cycle_delay \<notin> set (forward_one nt chat message_id cycle_delay hide_sender t))"
proof -
  have "fst (forwarding_job_runner nt message_link delay cycle_delay targets hide_sender) =
           [Log (LogJobStart message_id chat), Sleep delay]
             @ concat (map (forward_one nt chat message_id cycle_delay hide_sender) targets)
             @ [Log (LogJobCompleted message_id)]"
    using assms by (simp add: forwarding_job_runner_def forward_loop_concat)
  moreover have "\<And>t. snd (deliver_try nt chat message_id cycle_delay hide_sender t) \<noteq> None \<Longrightarrow>
      last (forward_one nt chat message_id cycle_delay hide_sender t) =
          Log (LogJobFailed t (the (snd (deliver_try nt chat message_id cycle_delay hide_sender t))))
      \<and> Sleep cycle_delay \<notin> set (forward_one nt chat message_id cycle_delay hide_sender t)"
    using forward_one_failure by fastforce
  ultimately show ?thesis
    using forward_one_success by simp
qed

theorem job_delay_only_after_success_witness:
  "parse_message_link ''https://t.me/chan/12'' = Inr (''chan'', 12)
   \<and> snd (deliver_try net_fail_a ''chan'' 12 5 False ''b'') = None
   \<and> last (forward_one net_fail_a ''chan'' 12 5 False ''b'') = Sleep 5
   \<and> snd (deliver_try net_fail_a ''chan'' 12 5 False ''a'') \<noteq> None
   \<and> Sleep 5 \<notin> set (forward_one net_fail_a ''chan'' 12 5 False ''a'')"
proof -
  note inst = job_delay_only_after_success [OF parse_chan_12, of net_fail_a 0 5 "[''a'', ''b'']" False]
  have a: "snd (deliver_try net_fail_a ''chan'' 12 5 False ''a'') \<noteq> None"
    by (simp add: deliver_try_def net_fail_a_def)
  have b: "snd (deliver_try net_fail_a ''chan'' 12 5 False ''b'') = None"
    by (simp add: deliver_try_def net_fail_a_def)
  from inst have "\<forall>t. if snd (deliver_try net_fail_a ''chan'' 12 5 False t) = None
                then last (forward_one net_fail_a ''chan'' 12 5 False t) = Sleep 5
                   \<and> count_list (forward_one net_fail_a ''chan'' 12 5 False t) (Sleep 5) = 1
                else last (forward_one net_fail_a ''chan'' 12 5 False t) =
                       Log (LogJobFailed t (the (snd (deliver_try net_fail_a ''chan'' 12 5 False t))))
                   \<and> Sleep 5 \<notin> set (forward_one net_fail_a ''chan'' 12 5 False t)"
    by blast
  from this [rule_format, of "''a''"] this [rule_format, of "''b''"] a b parse_chan_12
  show ?thesis by simp
qed

text \<open>
  The claim C5 as stated fails: with the targets a and b, where forwarding to a is
  refused, the job logs the failure and goes on to b at once; the only sleep of the cycle
  delay is the one after b.
\<close>

theorem job_failure_skips_delay_counterexample:
  "forwarding_job_runner net_fail_a ''https://t.me/chan/12'' 0 5 [''a'', ''b''] False =
     ([Log (LogJobStart 12 ''chan''), Sleep 0,
       Log (LogForwardingTo ''a''), ForwardMessages ''a'' 12 ''chan'',
       Log (LogJobFailed ''a'' (OtherError ''CHAT_WRITE_FORBIDDEN'')),
       Log (LogForwardingTo ''b''), ForwardMessages ''b'' 12 ''chan'',
       Log (LogJobSuccessWaiting 5), Sleep 5,
       Log (LogJobCompleted 12)], None)
   \<and> Sleep 5 \<notin> set (forward_one net_fail_a ''chan'' 12 5 False ''a'')"
  by (simp add: forwarding_job_runner_def parse_chan_12 forward_one_def deliver_try_def net_fail_a_def)

text \<open>
  C8. When the message reference cannot be parsed (after removing trailing slashes and
  splitting at the slashes there are fewer than two parts, or the last part is not an
  integer literal), the job logs the parse error and nothing else: it issues no call that
  fetches, sends or forwards a message, whatever the targets, and no exception leaves the
  runner.
\<close>

theorem job_unparsable_link:
  assumes "parts = py_split (CHR ''/'') (py_rstrip_char (CHR ''/'') message_link)"
    and "length parts < 2 \<or> py_int (last parts) = None"
  shows "forwarding_job_runner nt message_link delay cycle_delay targets hide_sender =
           ([Log (LogJobRunnerError
                    (if length parts < 2 then IndexError ''list index out of range''
                     else int_value_error (last parts)))], None)
         \<and> filter is_delivery (fst (forwarding_job_runner nt message_link delay cycle_delay targets hide_sender)) = []"
  using assms
  by (auto simp: forwarding_job_runner_def parse_message_link_def Let_def is_delivery_def)

theorem job_unparsable_link_witness:
  "[''https:'', [], ''t.me'', ''chan'', ''abc''] =
     py_split (CHR ''/'') (py_rstrip_char (CHR ''/'') ''https://t.me/chan/abc'')
   \<and> py_int (last [''https:'', [], ''t.me'', ''chan'', ''abc'']) = None
   \<and> forwarding_job_runner net_ok ''https://t.me/chan/abc'' 0 5 [''a'', ''b''] False =
       ([Log (LogJobRunnerError (int_value_error ''abc''))], None)
   \<and> filter is_delivery (fst (forwarding_job_runner net_ok ''https://t.me/chan/abc'' 0 5 [''a'', ''b''] False)) = []"
proof -
  have p: "[''https:'', [], ''t.me'', ''chan'', ''abc''] =
      py_split (CHR ''/'') (py_rstrip_char (CHR ''/'') ''https://t.me/chan/abc'')"
    by (simp add: char_eval)
  have q: "py_int (last [''https:'', [], ''t.me'', ''chan'', ''abc'']) = None"
    by (simp add: char_eval)
  from job_unparsable_link [OF p disjI2 [OF q], of net_ok 0 5 "[''a'', ''b'']" False]
  have "forwarding_job_runner net_ok ''https://t.me/chan/abc'' 0 5 [''a'', ''b''] False =
       ([Log (LogJobRunnerError (int_value_error ''abc''))], None)
   \<and> filter is_delivery (fst (forwarding_job_runner net_ok ''https://t.me/chan/abc'' 0 5 [''a'', ''b''] False)) = []"
    by (simp add: is_delivery_def)
  with p q show ?thesis by blast
qed


section \<open>Properties of the extraction\<close>












section \<open>Properties of the reply handlers\<close>

lemma replies_simps:
  "replies [] = []"
  "replies (Log l # xs) = replies xs"
  "replies (Reply t # xs) = t # replies xs"
  "replies (xs @ [Unhandled e]) = replies xs"
  by (simp_all add: replies_def)

lemma replies_reply_with:
  "replies (case reply_with nt txt [Log l] of (acts, None) \<Rightarrow> acts | (acts, Some e) \<Rightarrow> acts @ [Unhandled e]) = [txt]"
  "replies (case reply_with nt txt [Log l, Log l2] of (acts, None) \<Rightarrow> acts | (acts, Some e) \<Rightarrow> acts @ [Unhandled e]) = [txt]"
  by (simp_all add: reply_with_def replies_def split: option.splits)

lemma replies_auto_reply_handler:
  assumes "is_private ev" "\<not> out ev"
  shows "replies (case auto_reply_handler settings kws nt ev of
                    (acts, None) \<Rightarrow> acts | (acts, Some e) \<Rightarrow> acts @ [Unhandled e]) =
           (if kws = [] \<or> (\<exists>k\<in>set kws. py_contains k (py_lower (raw_text ev)))
            then [message settings] else [])"
  using assms
  by (auto simp: auto_reply_handler_def Let_def list_ex_iff replies_reply_with replies_simps)

text \<open>
  C3. With an auto-reply configuration whose message is not empty, the handler that the
  set-up registers answers a private message that is not the account's own as follows.
  The keyword list is the keywords field split at the commas, each part trimmed and
  lower-cased, the blank parts dropped. If that list is empty the handler issues exactly
  one reply, the configured message. If it is not empty, the handler issues that one
  reply when some keyword occurs in the lower-cased text of the message, and no reply
  otherwise.
\<close>

theorem auto_reply_rule:
  assumes "message settings \<noteq> []" and "is_private ev" and "\<not> out ev"
  shows "auto_replies phone settings nt ev =
           (if parse_keywords (keywords_text settings) = []
               \<or> (\<exists>k\<in>set (parse_keywords (keywords_text settings)). py_contains k (py_lower (raw_text ev)))
            then [message settings] else [])"
  using assms
  by (simp add: auto_replies_def auto_reply_setup_def replies_auto_reply_handler)

lemma replies_smart_selling_handler:
  assumes "is_private ev" "\<not> out ev"
  shows "replies (case smart_selling_handler smart_settings must maybe nt ev of
                    (acts, None) \<Rightarrow> acts | (acts, Some e) \<Rightarrow> acts @ [Unhandled e]) =
           (if (if must \<noteq> [] \<and> maybe \<noteq> [] then
                  (\<forall>k\<in>set must. py_contains k (py_lower (raw_text ev)))
                  \<and> (\<exists>k\<in>set maybe. py_contains k (py_lower (raw_text ev)))
                else if must \<noteq> [] then (\<forall>k\<in>set must. py_contains k (py_lower (raw_text ev)))
                else if maybe \<noteq> [] then (\<exists>k\<in>set maybe. py_contains k (py_lower (raw_text ev)))
                else False)
            then [smart_message smart_settings] else [])"
  using assms
  by (auto simp: smart_selling_handler_def Let_def list_ex_iff list_all_iff replies_reply_with replies_simps)

text \<open>
  C2. With a smart-selling configuration that is enabled and whose message is not empty,
  the handler that the set-up registers answers a private message that is not the
  account's own with exactly one reply, the configured message, when the lower-cased text
  satisfies the table, and with no reply otherwise: both lists non-empty, every
  must-keyword and at least one maybe-keyword occur in the text; only the must-list
  non-empty, every must-keyword occurs; only the maybe-list non-empty, at least one
  maybe-keyword occurs; both empty, never.
\<close>

theorem smart_selling_truth_table:
  assumes "enabled smart_settings" and "smart_message smart_settings \<noteq> []"
    and "is_private ev" and "\<not> out ev"
  shows "smart_replies phone smart_settings nt ev =
           (if (if parse_keywords (must_contain smart_settings) \<noteq> []
                    \<and> parse_keywords (maybe_contain smart_settings) \<noteq> [] then
                  (\<forall>k\<in>set (parse_keywords (must_contain smart_settings)). py_contains k (py_lower (raw_text ev)))
                  \<and> (\<exists>k\<in>set (parse_keywords (maybe_contain smart_settings)). py_contains k (py_lower (raw_text ev)))
                else if parse_keywords (must_contain smart_settings) \<noteq> [] then
                  (\<forall>k\<in>set (parse_keywords (must_contain smart_settings)). py_contains k (py_lower (raw_text ev)))
                else if parse_keywords (maybe_contain smart_settings) \<noteq> [] then
                  (\<exists>k\<in>set (parse_keywords (maybe_contain smart_settings)). py_contains k (py_lower (raw_text ev)))
                else False)
            then [smart_message smart_settings] else [])"
  using assms
  by (simp only: smart_replies_def smart_selling_setup_def option.case if_True simp_thms snd_conv
        list.map concat.simps append_Nil2 dispatch.simps replies_smart_selling_handler)

lemma lower_text: "py_lower ''Hello, what is the PRICE?'' = ''hello, what is the price?''"
  by (simp add: py_lower_def lower_char_def)

lemma kw1: "parse_keywords (Some '' Hello , '') = [''hello'']"
  by (simp add: parse_keywords_def py_lower_def lower_char_def char_eval)

lemma kw2: "parse_keywords (Some ''cost,PRICE'') = [''cost'', ''price'']"
  by (simp add: parse_keywords_def py_lower_def lower_char_def char_eval)

lemma kw3: "parse_keywords (Some ''refund'') = [''refund'']"
  by (simp add: parse_keywords_def py_lower_def lower_char_def char_eval)

lemma kw0: "parse_keywords None = []" "parse_keywords (Some '' , '') = []"
  by (simp_all add: parse_keywords_def py_lower_def lower_char_def char_eval)

lemma contains_eval:
  "py_contains ''hello'' ''hello, what is the price?''"
  "py_contains ''price'' ''hello, what is the price?''"
  "\<not> py_contains ''cost'' ''hello, what is the price?''"
  "\<not> py_contains ''refund'' ''hello, what is the price?''"
  by simp_all

lemma event_1001_private: "is_private event_1001" "\<not> out event_1001"
  by (simp_all add: event_1001_def)

lemma event_1001_lower: "py_lower (raw_text event_1001) = ''hello, what is the price?''"
  by (simp add: event_1001_def lower_text)

theorem smart_selling_truth_table_witness:
  "enabled (smart_cfg (Some '' Hello , '') (Some ''cost,PRICE''))
   \<and> smart_message (smart_cfg (Some '' Hello , '') (Some ''cost,PRICE'')) \<noteq> []
   \<and> is_private event_1001 \<and> \<not> out event_1001
   \<and> smart_replies ''+15550001'' (smart_cfg (Some '' Hello , '') (Some ''cost,PRICE'')) event_net_ok event_1001 =
       [''We have an offer'']
   \<and> smart_replies ''+15550001'' (smart_cfg (Some '' Hello , '') None) event_net_ok event_1001 =
       [''We have an offer'']
   \<and> smart_replies ''+15550001'' (smart_cfg None (Some ''refund'')) event_net_ok event_1001 = []
   \<and> smart_replies ''+15550001'' (smart_cfg (Some '' , '') None) event_net_ok event_1001 = []"
proof -
  have en: "enabled (smart_cfg must maybe)" "smart_message (smart_cfg must maybe) \<noteq> []" for must maybe
    by (simp_all add: smart_cfg_def)
  have fields: "must_contain (smart_cfg must maybe) = must" "maybe_contain (smart_cfg must maybe) = maybe"
      "smart_message (smart_cfg must maybe) = ''We have an offer''" for must maybe
    by (simp_all add: smart_cfg_def)
  have "smart_replies ''+15550001'' (smart_cfg (Some '' Hello , '') (Some ''cost,PRICE'')) event_net_ok event_1001 =
       [''We have an offer'']"
    using smart_selling_truth_table [of "smart_cfg (Some '' Hello , '') (Some ''cost,PRICE'')" event_1001 "''+15550001''" event_net_ok]
      en event_1001_private
    by (simp add: fields kw1 kw2 event_1001_lower)
  moreover have "smart_replies ''+15550001'' (smart_cfg (Some '' Hello , '') None) event_net_ok event_1001 =
       [''We have an offer'']"
    using smart_selling_truth_table [of "smart_cfg (Some '' Hello , '') None" event_1001 "''+15550001''" event_net_ok]
      en event_1001_private
    by (simp add: fields kw1 kw0 event_1001_lower)
  moreover have "smart_replies ''+15550001'' (smart_cfg None (Some ''refund'')) event_net_ok event_1001 = []"
    using smart_selling_truth_table [of "smart_cfg None (Some ''refund'')" event_1001 "''+15550001''" event_net_ok]
      en event_1001_private
    by (simp add: fields kw3 kw0 event_1001_lower)
  moreover have "smart_replies ''+15550001'' (smart_cfg (Some '' , '') None) event_net_ok event_1001 = []"
    using smart_selling_truth_table [of "smart_cfg (Some '' , '') None" event_1001 "''+15550001''" event_net_ok]
      en event_1001_private
    by (simp add: fields kw0 event_1001_lower)
  ultimately show ?thesis
    using en event_1001_private by blast
qed

theorem auto_reply_rule_witness:
  "message (auto_cfg (Some ''cost,PRICE'')) \<noteq> [] \<and> is_private event_1001 \<and> \<not> out event_1001
   \<and> parse_keywords (Some ''cost,PRICE'') = [''cost'', ''price'']
   \<and> auto_replies ''+15550001'' (auto_cfg (Some ''cost,PRICE'')) event_net_ok event_1001 = [''I am away'']
   \<and> auto_replies ''+15550001'' (auto_cfg (Some ''refund'')) event_net_ok event_1001 = []
   \<and> auto_replies ''+15550001'' (auto_cfg None) event_net_ok event_1001 = [''I am away'']"
proof -
  have msg: "message (auto_cfg kws) \<noteq> []" for kws
    by (simp add: auto_cfg_def)
  have fields: "keywords_text (auto_cfg kws) = kws" "message (auto_cfg kws) = ''I am away''" for kws
    by (simp_all add: auto_cfg_def)
  have "auto_replies ''+15550001'' (auto_cfg (Some ''cost,PRICE'')) event_net_ok event_1001 = [''I am away'']"
    using auto_reply_rule [of "auto_cfg (Some ''cost,PRICE'')" event_1001 "''+15550001''" event_net_ok]
      msg event_1001_private
    by (simp add: fields kw2 event_1001_lower)
  moreover have "auto_replies ''+15550001'' (auto_cfg (Some ''refund'')) event_net_ok event_1001 = []"
    using auto_reply_rule [of "auto_cfg (Some ''refund'')" event_1001 "''+15550001''" event_net_ok]
      msg event_1001_private
    by (simp add: fields kw3 event_1001_lower)
  moreover have "auto_replies ''+15550001'' (auto_cfg None) event_net_ok event_1001 = [''I am away'']"
    using auto_reply_rule [of "auto_cfg None" event_1001 "''+15550001''" event_net_ok]
      msg event_1001_private
    by (simp add: fields kw0 event_1001_lower)
  ultimately show ?thesis
    using msg event_1001_private kw2 by blast
qed

section \<open>Properties of the forwarding handler\<close>

lemma forwards_simps:
  "forwards [] = []"
  "forwards (Log l # xs) = forwards xs"
  "forwards (ForwardTo d # xs) = d # forwards xs"
  "forwards (xs @ ys) = forwards xs @ forwards ys"
  by (simp_all add: forwards_def)

lemma forwards_forward_rule:
  "forwards (forward_rule nt ev r) = (case py_int (destination_chat r) of None \<Rightarrow> [] | Some d \<Rightarrow> [d])"
  by (simp add: forward_rule_def forwards_simps split: option.splits exn.splits)

text \<open>
  When the source chat of every loaded rule is an integer literal, the handler runs
  through all the rules without raising, and it calls forward once for each rule whose
  source is the chat of the event and whose destination is an integer literal, in the
  order of the rules.
\<close>

lemma handler_rules_wellformed:
  assumes "\<forall>r\<in>set rules. py_int (source_chat r) \<noteq> None"
  shows "snd (handler_rules nt ev rules) = None
         \<and> forwards (fst (handler_rules nt ev rules)) =
             concat (map (\<lambda>r. case py_int (destination_chat r) of None \<Rightarrow> [] | Some d \<Rightarrow> [d])
                       (filter (\<lambda>r. py_int (source_chat r) = Some (chat_id ev)) rules))"
  using assms
  by (induction rules)
     (auto simp: forwards_simps forwards_forward_rule split: option.splits prod.splits)

text \<open>
  C1 does not hold of the handler. The rules are those of the account with status active:
  the first has the source chat "@news", the second forwards chat -1001 to chat -1003.
  An event of chat -1001 is delivered to the handler, since -1001 is among the source
  chats it listens to. The handler compares \<^verbatim>\<open>int(rule['source_chat'])\<close> with the chat
  of the event outside its \<^verbatim>\<open>try\<close> statement: at the first rule the conversion raises
  ValueError, the exception leaves the handler, and the second rule is never looked at.
  Nothing is forwarded although an active rule has the event's chat as source.
\<close>

theorem handler_aborts_on_bad_source:
  "load_rules [rule_bad_source, rule_good] ''+15550001'' = [rule_bad_source, rule_good]
   \<and> source_chat_ids [rule_bad_source, rule_good] = Inr {- 1001}
   \<and> py_int (source_chat rule_good) = Some (chat_id event_1001)
   \<and> py_int (destination_chat rule_good) = Some (- 1003)
   \<and> handler ''+15550001'' [rule_bad_source, rule_good] event_net_ok event_1001 =
       ([Log (LogNewMessage (- 1001) ''+15550001''), Log (LogForwardNewMessage (- 1001) ''+15550001'')],
        Some (int_value_error ''@news''))
   \<and> forwards (fst (handler ''+15550001'' [rule_bad_source, rule_good] event_net_ok event_1001)) = []"
  by (simp add: load_rules_def rule_bad_source_def rule_good_def event_1001_def handler_def forwards_def
        char_eval)


section \<open>Properties of the client run\<close>

lemma run_client_start_fails:
  "run_client (env\<lparr>start_result := Some e\<rparr>) db clients accs phone session_string =
     (clients(phone := None),
      set_status (set_status accs phone ''Error'') phone ''Offline'',
      [SetStatus phone ''Error'', Log (LogFailedToConnect phone e),
       SetStatus phone ''Offline'', Log (LogDisconnected phone)])"
  by (auto simp: run_client_def run_client_try_def fun_upd_idem_iff domIff)

text \<open>
  C4 does not hold of the client run. When \<^verbatim>\<open>client.start\<close> raises, the \<^verbatim>\<open>except\<close>
  clause writes the status Error, and the \<^verbatim>\<open>finally\<close> clause, which runs on every path,
  then writes the status Offline over it. For an account whose connection fails the
  statuses written are Error and then Offline, and the stored status at the end of the
  run is Offline; the account is absent from the registry.
\<close>

theorem run_client_failed_start_ends_offline:
  "run_client env_start_fails database_empty Map.empty accounts_1 ''+15550001'' ''token'' =
     (Map.empty, [''+15550001'' \<mapsto> ''Offline''],
      [SetStatus ''+15550001'' ''Error'',
       Log (LogFailedToConnect ''+15550001'' (OtherError ''Connection to Telegram failed 5 time(s)'')),
       SetStatus ''+15550001'' ''Offline'', Log (LogDisconnected ''+15550001'')])
   \<and> status_writes ''+15550001''
        (snd (snd (run_client env_start_fails database_empty Map.empty accounts_1 ''+15550001'' ''token''))) =
      [''Error'', ''Offline'']"
  by (simp add: run_client_def run_client_try_def env_start_fails_def accounts_1_def set_status_def
        status_writes_def)


section \<open>Properties of the onboarding endpoint\<close>

lemma bind_one_missing:
  "bind_positional ''start_interactive_session'' start_interactive_session_params [WebSocketV] =
     Inl (TypeError ''start_interactive_session() missing required positional argument: owner_user'')"
  by (simp add: bind_positional_def start_interactive_session_params_def)

text \<open>
  Called with both of its parameters, the method runs the whole dialogue: it connects,
  prompts for the phone number and the code, signs in, stores the account and starts its
  client.
\<close>

lemma start_interactive_session_two_arguments:
  "call_start_interactive_session env_happy [WebSocketV, UserV ''alice''] =
     ([ClientConnect,
       WsSendJson ''prompt'' ''Please enter your phone number (e.g., +15551234567):'',
       WsReceiveJson, SendCodeRequest ''+15550001'',
       WsSendJson ''prompt'' ''Enter the code you received in Telegram:'',
       WsReceiveJson, SignIn ''+15550001'' ''12345'' ''hash'', GetMe,
       UpsertAccount ''+15550001'' ''token'' ''Online'' ''alice'',
       Log (LogLoginSuccessful ''+15550001''),
       CreateRunClientTask ''+15550001'' ''token'',
       WsSendJson ''success'' ''Successfully logged in and saved account +15550001!'',
       ClientDisconnect], None)"
  by (simp add: call_start_interactive_session_def bind_positional_def start_interactive_session_params_def
        start_interactive_session_def authenticate_def and_then_def raised_def sign_in_steps_def
        username_of_def env_happy_def Let_def)

text \<open>
  C10. Whatever the client and the service would answer, the endpoint accepts the
  websocket and then fails with TypeError: it calls the method with the websocket alone,
  the parameter \<^verbatim>\<open>owner_user\<close> stays unbound, and the error is not the one exception the
  endpoint catches. The body of the method never starts: no prompt or other message is
  sent, no connection to the service is opened, no account is stored and no client is
  started.
\<close>

theorem add_account_always_type_error:
  "websocket_add_account env =
     ([WsAccept],
      Some (TypeError ''start_interactive_session() missing required positional argument: owner_user''))
   \<and> filter is_onboarding_effect (fst (websocket_add_account env)) = []"
  by (simp add: websocket_add_account_def call_start_interactive_session_def bind_one_missing
        is_onboarding_effect_def)

theorem add_account_always_type_error_witness:
  "websocket_add_account env_happy =
     ([WsAccept],
      Some (TypeError ''start_interactive_session() missing required positional argument: owner_user''))"
  using add_account_always_type_error [of env_happy] by simp

end
